theory Spec2Isabelle
  imports Main "HOL-Library.Multiset"
begin

section \<open>Python exceptions\<close>

text \<open>
  Every raise of the source is a value: an exception is its class and the argument it was
  built with (\<^verbatim>\<open>args[0]\<close>; empty for a bare \<^verbatim>\<open>raise C\<close>). A class defined outside the
  repository (the failures a worker body can raise) is \<open>UserException\<close>: its name, its base
  class, and what its constructor does when it is called with one message, which is how
  \<^verbatim>\<open>ExceptionThread.join\<close> rebuilds it.
\<close>

datatype exc_type =
    BaseException | IndexError | KeyError | RuntimeError | AttributeError | TypeError
  | ValueError | NotImplementedError
  | UserException string exc_type ctor
and ctor = CtorAccepts | CtorTypeError | CtorRaises exc_type string

datatype exn = Exn (exn_type: exc_type) (exn_arg: string)

text \<open>
  \<^verbatim>\<open>except C\<close> catches \<open>C\<close> and the classes derived from it. Among the built-in classes
  listed, \<^verbatim>\<open>NotImplementedError\<close> derives from \<^verbatim>\<open>RuntimeError\<close> and every class from
  \<^verbatim>\<open>BaseException\<close>; a user class names its base.
\<close>

fun issubclass :: "exc_type \<Rightarrow> exc_type \<Rightarrow> bool" where
  "issubclass (UserException n base c) t =
     (UserException n base c = t \<or> issubclass base t)"
| "issubclass NotImplementedError t =
     (t = NotImplementedError \<or> t = RuntimeError \<or> t = BaseException)"
| "issubclass t t' = (t = t' \<or> t' = BaseException)"

text \<open>
  Calling a class with one message, \<^verbatim>\<open>cls(msg)\<close>: a built-in class accepts it and the
  instance holds the message as its argument; a user class does what its constructor says.
\<close>

fun construct :: "exc_type \<Rightarrow> string \<Rightarrow> exn + exn" where
  "construct (UserException n base CtorAccepts) msg = Inr (Exn (UserException n base CtorAccepts) msg)"
| "construct (UserException n base CtorTypeError) msg =
     Inl (Exn TypeError ''__init__() takes a different number of arguments'')"
| "construct (UserException n base (CtorRaises t m)) msg = Inl (Exn t m)"
| "construct t msg = Inr (Exn t msg)"

text \<open>
  \<^verbatim>\<open>str(e)\<close>, the text an exception renders. It depends on the class: \<^verbatim>\<open>KeyError\<close> renders
  the \<^verbatim>\<open>repr\<close> of its argument, a user class what its \<^verbatim>\<open>__str__\<close> makes of the argument,
  the other built-in classes the argument itself. \<^verbatim>\<open>repr\<close> of a string and the \<^verbatim>\<open>__str__\<close>
  of the user classes (by class name) are parameters.
\<close>

fun py_str :: "(string \<Rightarrow> string) \<Rightarrow> (string \<Rightarrow> string \<Rightarrow> string) \<Rightarrow> exn \<Rightarrow> string" where
  "py_str repr_str user_str (Exn KeyError a) = repr_str a"
| "py_str repr_str user_str (Exn (UserException n base c) a) = user_str n a"
| "py_str repr_str user_str (Exn t a) = a"

text \<open>
  A function that can raise returns \<open>exn + 's\<close>; \<open>Inl\<close> is the raise. The updates a callee
  made before it raised are not tracked: the caller that catches continues from the state
  it called with.
\<close>

section \<open>event_interface.py\<close>

text \<open>
  \<^verbatim>\<open>AbstractEvent\<close>: the attributes \<^verbatim>\<open>date_time\<close> and \<^verbatim>\<open>_cancelled\<close>. The record is
  extensible: the attributes a subclass adds (a name, a payload) are its \<open>more\<close> part.
  A \<^verbatim>\<open>datetime\<close> is a point of a total order, here an integer count of microseconds.
\<close>

record event =
  date_time :: int
  cancelled :: bool

definition AbstractEvent_init :: "int \<Rightarrow> event" where
  "AbstractEvent_init dt = \<lparr>date_time = dt, cancelled = False\<rparr>"

definition AbstractEvent_eq :: "'a event_scheme \<Rightarrow> 'b event_scheme \<Rightarrow> bool" where
  "AbstractEvent_eq self other = (date_time self = date_time other)"

definition AbstractEvent_lt :: "'a event_scheme \<Rightarrow> 'b event_scheme \<Rightarrow> bool" where
  "AbstractEvent_lt self other = (date_time self < date_time other)"

definition AbstractEvent_cancel :: "'a event_scheme \<Rightarrow> 'a event_scheme" where
  "AbstractEvent_cancel self = self\<lparr>cancelled := True\<rparr>"

section \<open>heapq (the standard library module used by priority_queue.py)\<close>

text \<open>
  \<^verbatim>\<open>heapq\<close> is not part of the repository; these functions follow CPython's
  \<^verbatim>\<open>Lib/heapq.py\<close> statement by statement. The module compares items with \<^verbatim>\<open><\<close>
  only, here the parameter \<open>lt\<close>. A list that Python updates in place is returned
  updated. \<^verbatim>\<open>_siftdown\<close> keeps \<^verbatim>\<open>newitem\<close> aside, moves parents down and writes
  \<^verbatim>\<open>newitem\<close> at the end, so the loop returns the list and the final position.
\<close>

function siftdown_loop ::
  "('a \<Rightarrow> 'a \<Rightarrow> bool) \<Rightarrow> 'a list \<Rightarrow> nat \<Rightarrow> nat \<Rightarrow> 'a \<Rightarrow> 'a list \<times> nat" where
  "siftdown_loop lt heap startpos pos newitem =
     (if pos > startpos then
        (let parentpos = (pos - 1) div 2;
             parent = heap ! parentpos
         in if lt newitem parent
            then siftdown_loop lt (heap[pos := parent]) startpos parentpos newitem
            else (heap, pos))
      else (heap, pos))"
  by pat_completeness auto
termination
  by (relation "measure (\<lambda>(lt, heap, startpos, pos, newitem). pos)") auto

declare siftdown_loop.simps [simp del]

definition siftdown :: "('a \<Rightarrow> 'a \<Rightarrow> bool) \<Rightarrow> 'a list \<Rightarrow> nat \<Rightarrow> nat \<Rightarrow> 'a list" where
  "siftdown lt heap startpos pos =
     (let newitem = heap ! pos;
          (heap', pos') = siftdown_loop lt heap startpos pos newitem
      in heap'[pos' := newitem])"

function siftup_loop ::
  "('a \<Rightarrow> 'a \<Rightarrow> bool) \<Rightarrow> 'a list \<Rightarrow> nat \<Rightarrow> nat \<Rightarrow> 'a list \<times> nat" where
  "siftup_loop lt heap endpos pos =
     (let childpos = 2 * pos + 1
      in if childpos < endpos then
           (let rightpos = childpos + 1;
                childpos' = (if rightpos < endpos \<and> \<not> lt (heap ! childpos) (heap ! rightpos)
                             then rightpos else childpos)
            in siftup_loop lt (heap[pos := heap ! childpos']) endpos childpos')
         else (heap, pos))"
  by pat_completeness auto
termination
  by (relation "measure (\<lambda>(lt, heap, endpos, pos). endpos - pos)") (auto simp: Let_def)

declare siftup_loop.simps [simp del]

definition siftup :: "('a \<Rightarrow> 'a \<Rightarrow> bool) \<Rightarrow> 'a list \<Rightarrow> nat \<Rightarrow> 'a list" where
  "siftup lt heap pos =
     (let endpos = length heap;
          startpos = pos;
          newitem = heap ! pos;
          (heap', pos') = siftup_loop lt heap endpos pos
      in siftdown lt (heap'[pos' := newitem]) startpos pos')"

definition heappush :: "('a \<Rightarrow> 'a \<Rightarrow> bool) \<Rightarrow> 'a list \<Rightarrow> 'a \<Rightarrow> 'a list" where
  "heappush lt heap item =
     (let heap' = heap @ [item] in siftdown lt heap' 0 (length heap' - 1))"

text \<open>\<^verbatim>\<open>heap.pop()\<close> on an empty list raises \<^verbatim>\<open>IndexError\<close> and leaves the list empty.\<close>

definition heappop :: "('a \<Rightarrow> 'a \<Rightarrow> bool) \<Rightarrow> 'a list \<Rightarrow> exn + ('a \<times> 'a list)" where
  "heappop lt heap =
     (if heap = [] then Inl (Exn IndexError ''pop from empty list'')
      else (let lastelt = last heap;
                heap1 = butlast heap
            in if heap1 \<noteq> [] then
                 (let returnitem = heap1 ! 0;
                      heap2 = heap1[0 := lastelt]
                  in Inr (returnitem, siftup lt heap2 0))
               else Inr (lastelt, heap1)))"

section \<open>priority_queue.py\<close>

text \<open>
  The queue holds references to event objects; \<^verbatim>\<open>cancel\<close> mutates the objects, not the
  list. So the events live in an object store \<open>nat \<Rightarrow> 'a event_scheme\<close> (reference to
  object) and \<^verbatim>\<open>_pq\<close> is a list of references. The lock is not modelled: every operation
  runs alone. Items are compared by \<^verbatim>\<open>AbstractEvent.__lt__\<close>.
\<close>

type_synonym 'a objs = "nat \<Rightarrow> 'a event_scheme"

record PriorityQueue =
  pq :: "nat list"

definition event_lt :: "'a objs \<Rightarrow> nat \<Rightarrow> nat \<Rightarrow> bool" where
  "event_lt evs a b = AbstractEvent_lt (evs a) (evs b)"

definition PriorityQueue_init :: PriorityQueue where
  "PriorityQueue_init = \<lparr>pq = []\<rparr>"

definition PriorityQueue_push :: "'a objs \<Rightarrow> PriorityQueue \<Rightarrow> nat \<Rightarrow> PriorityQueue" where
  "PriorityQueue_push evs self event = self\<lparr>pq := heappush (event_lt evs) (pq self) event\<rparr>"

definition PriorityQueue_empty :: "'a objs \<Rightarrow> PriorityQueue \<Rightarrow> bool" where
  "PriorityQueue_empty evs self = list_all (\<lambda>e. cancelled (evs e)) (pq self)"

text \<open>
  \<^verbatim>\<open>cancel(key)\<close>: the loop over \<^verbatim>\<open>_pq\<close>, in list order; \<open>key\<close> sees the reference and
  the object's current attributes. It returns the list \<^verbatim>\<open>le\<close> and the updated store.
\<close>

fun cancel_loop ::
  "(nat \<Rightarrow> 'a event_scheme \<Rightarrow> bool) \<Rightarrow> nat list \<Rightarrow> 'a objs \<Rightarrow> nat list \<Rightarrow> nat list \<times> 'a objs" where
  "cancel_loop key [] evs le = (le, evs)"
| "cancel_loop key (e # es) evs le =
     (if key e (evs e)
      then cancel_loop key es (evs(e := AbstractEvent_cancel (evs e))) (le @ [e])
      else cancel_loop key es evs le)"

definition PriorityQueue_cancel ::
  "(nat \<Rightarrow> 'a event_scheme \<Rightarrow> bool) \<Rightarrow> 'a objs \<Rightarrow> PriorityQueue \<Rightarrow> nat list \<times> 'a objs" where
  "PriorityQueue_cancel key evs self = cancel_loop key (pq self) evs []"

definition PriorityQueue_contains ::
  "(nat \<Rightarrow> 'a event_scheme \<Rightarrow> bool) \<Rightarrow> 'a objs \<Rightarrow> PriorityQueue \<Rightarrow> bool" where
  "PriorityQueue_contains key evs self = list_ex (\<lambda>e. key e (evs e)) (pq self)"

definition PriorityQueue_get ::
  "(nat \<Rightarrow> 'a event_scheme \<Rightarrow> bool) \<Rightarrow> 'a objs \<Rightarrow> PriorityQueue \<Rightarrow> nat list" where
  "PriorityQueue_get key evs self = filter (\<lambda>e. key e (evs e)) (pq self)"

text \<open>
  \<^verbatim>\<open>pop()\<close>: one \<^verbatim>\<open>heappop\<close>, then the loop \<^verbatim>\<open>while event.cancelled\<close>. The
  \<^verbatim>\<open>IndexError\<close> of a \<^verbatim>\<open>heappop\<close> on the emptied list leaves the method; the list stays
  as the loop left it. The loop ends because each \<^verbatim>\<open>heappop\<close> shortens the list.
\<close>

function pop_loop :: "'a objs \<Rightarrow> nat \<Rightarrow> nat list \<Rightarrow> (exn + nat) \<times> nat list" where
  "pop_loop evs event heap =
     (if cancelled (evs event) then
        (case heappop (event_lt evs) heap of
           Inl e \<Rightarrow> (Inl e, heap)
         | Inr (event', heap') \<Rightarrow> pop_loop evs event' heap')
      else (Inr event, heap))"
  by pat_completeness auto
termination
proof (relation "measure (\<lambda>(evs, event, heap). length heap)")
  show "wf (measure (\<lambda>(evs :: 'a objs, event :: nat, heap :: nat list). length heap))"
    by simp
next
  fix evs :: "'a objs" and event :: nat and heap :: "nat list" and x2 event' heap'
  assume pop: "heappop (event_lt evs) heap = Inr x2" and x2: "(event', heap') = x2"
  have down_loop: "length h' = length h"
    if "siftdown_loop lt h s p x = (h', p')"
    for lt :: "nat \<Rightarrow> nat \<Rightarrow> bool" and h s p x h' p'
    using that
  proof (induction lt h s p x arbitrary: h' p' rule: siftdown_loop.induct)
    case (1 lt heap startpos pos newitem)
    show ?case
    proof (cases "pos > startpos \<and> lt newitem (heap ! ((pos - 1) div 2))")
      case True
      with "1.prems"
      have "siftdown_loop lt (heap[pos := heap ! ((pos - 1) div 2)]) startpos
              ((pos - 1) div 2) newitem = (h', p')"
        by (subst (asm) siftdown_loop.simps) (simp add: Let_def)
      from "1.IH"[OF _ refl refl _ this] True show ?thesis by auto
    next
      case False
      with "1.prems" show ?thesis
        by (subst (asm) siftdown_loop.simps) (auto simp: Let_def split: if_splits)
    qed
  qed
  have down: "length (siftdown lt h s p) = length h"
    for lt :: "nat \<Rightarrow> nat \<Rightarrow> bool" and h s p
  proof -
    obtain h' p' where run: "siftdown_loop lt h s p (h ! p) = (h', p')"
      by (cases "siftdown_loop lt h s p (h ! p)") auto
    then show ?thesis using down_loop[OF run] by (simp add: siftdown_def)
  qed
  have up_loop: "length h' = length h"
    if "siftup_loop lt h n p = (h', p')"
    for lt :: "nat \<Rightarrow> nat \<Rightarrow> bool" and h n p h' p'
    using that
  proof (induction lt h n p arbitrary: h' p' rule: siftup_loop.induct)
    case (1 lt heap endpos pos)
    let ?l = "2 * pos + 1"
    let ?c = "if ?l + 1 < endpos \<and> \<not> lt (heap ! ?l) (heap ! (?l + 1)) then ?l + 1 else ?l"
    show ?case
    proof (cases "?l < endpos")
      case True
      with "1.prems" have "siftup_loop lt (heap[pos := heap ! ?c]) endpos ?c = (h', p')"
        by (subst (asm) siftup_loop.simps) (auto simp: Let_def split: if_splits)
      from "1.IH"[OF refl True refl refl this] show ?thesis by simp
    next
      case False
      with "1.prems" show ?thesis
        by (subst (asm) siftup_loop.simps) (simp add: Let_def)
    qed
  qed
  have up: "length (siftup lt h p) = length h"
    for lt :: "nat \<Rightarrow> nat \<Rightarrow> bool" and h p
  proof -
    obtain h' p' where run: "siftup_loop lt h (length h) p = (h', p')"
      by (cases "siftup_loop lt h (length h) p") auto
    then show ?thesis
      using up_loop[OF run] by (simp add: siftup_def Let_def down)
  qed
  have "length heap' < length heap"
    using pop x2 by (auto simp: heappop_def Let_def up split: if_splits)
  then show "((evs, event', heap'), evs, event, heap)
               \<in> measure (\<lambda>(evs, event, heap). length heap)"
    by simp
qed

declare pop_loop.simps [simp del]

definition PriorityQueue_pop :: "'a objs \<Rightarrow> PriorityQueue \<Rightarrow> (exn + nat) \<times> PriorityQueue" where
  "PriorityQueue_pop evs self =
     (case heappop (event_lt evs) (pq self) of
        Inl e \<Rightarrow> (Inl e, self)
      | Inr (event, heap) \<Rightarrow>
          (let (res, heap') = pop_loop evs event heap in (res, self\<lparr>pq := heap'\<rparr>)))"







text \<open>Two events for a concrete run: event 0 at time 5, every other event at time 3.\<close>

definition two_events :: "nat \<Rightarrow> event" where
  "two_events r = (if r = 0 then AbstractEvent_init 5 else AbstractEvent_init 3)"

text \<open>
  A key that holds of every event, the queue after one \<^verbatim>\<open>push\<close> of event 0, and the same
  two events after \<^verbatim>\<open>cancel()\<close>.
\<close>

definition any_event :: "nat \<Rightarrow> 'a event_scheme \<Rightarrow> bool" where
  "any_event r e = True"

definition one_event_queue :: PriorityQueue where
  "one_event_queue = PriorityQueue_push two_events PriorityQueue_init 0"

definition all_cancelled :: "nat \<Rightarrow> event" where
  "all_cancelled r = AbstractEvent_cancel (two_events r)"

section \<open>Heap invariant (proof vocabulary)\<close>




section \<open>exception_threading.py\<close>

text \<open>
  \<^verbatim>\<open>ExceptionThread\<close>: the thread's name, the captured \<^verbatim>\<open>exc\<close> (the triple of
  \<^verbatim>\<open>sys.exc_info()\<close>: class and value are the \<open>exn\<close>, the traceback is not modelled) and
  whether \<^verbatim>\<open>start()\<close> was called. The body \<^verbatim>\<open>run_with_exception\<close> is abstract: it is a
  parameter that returns the thread object as it left it and the exception it raised, if
  any. Scheduling is not modelled: \<^verbatim>\<open>run\<close> is the effect of the worker once it has
  finished, \<^verbatim>\<open>join\<close> is called after that.
\<close>

record ExceptionThread =
  thread_name :: string
  exc :: "exn option"
  started :: bool

definition ExceptionThread_init :: "string \<Rightarrow> ExceptionThread" where
  "ExceptionThread_init nm = \<lparr>thread_name = nm, exc = None, started = False\<rparr>"

text \<open>
  \<^verbatim>\<open>run\<close> returns the exception that leaves it, if any, and the thread object. An
  exception that leaves \<^verbatim>\<open>run\<close> is raised inside the worker thread: it ends the worker
  and never reaches the thread that joins.
\<close>

definition ExceptionThread_run ::
  "('a ExceptionThread_scheme \<Rightarrow> exn option \<times> 'a ExceptionThread_scheme) \<Rightarrow>
   'a ExceptionThread_scheme \<Rightarrow> exn option \<times> 'a ExceptionThread_scheme" where
  "ExceptionThread_run run_with_exception self =
     (case run_with_exception self of
        (None, self') \<Rightarrow> (None, self')
      | (Some e, self') \<Rightarrow>
          if issubclass (exn_type e) NotImplementedError then (Some e, self')
          else (None, self'\<lparr>exc := Some e\<rparr>))"

text \<open>
  The body of the base class, \<^verbatim>\<open>raise NotImplementedError\<close>, and a body that raises a
  given exception at once.
\<close>

definition run_with_exception_abstract ::
  "'a ExceptionThread_scheme \<Rightarrow> exn option \<times> 'a ExceptionThread_scheme" where
  "run_with_exception_abstract self = (Some (Exn NotImplementedError []), self)"

definition raising ::
  "exn \<Rightarrow> 'a ExceptionThread_scheme \<Rightarrow> exn option \<times> 'a ExceptionThread_scheme" where
  "raising e self = (Some e, self)"

text \<open>
  \<^verbatim>\<open>repr\<close> of a string that has no quote, backslash or control character in it, and a
  \<^verbatim>\<open>__str__\<close> that renders the argument: the instances used in the concrete runs.
\<close>

definition py_repr :: "string \<Rightarrow> string" where
  "py_repr s = [CHR 0x27] @ s @ [CHR 0x27]"

definition str_of_argument :: "string \<Rightarrow> string \<Rightarrow> string" where
  "str_of_argument n a = a"

text \<open>
  The message of \<^verbatim>\<open>join\<close>: the format string of the source filled with the \<^verbatim>\<open>repr\<close> of
  the thread's name and, between single quotes, the \<^verbatim>\<open>str\<close> of the captured exception.
\<close>

definition join_msg :: "(string \<Rightarrow> string) \<Rightarrow> string \<Rightarrow> string \<Rightarrow> string" where
  "join_msg repr_str nm s =
     ''Thread '' @ repr_str nm @ '' threw an exception: '' @ [CHR 0x27] @ s @ [CHR 0x27]"

text \<open>
  \<^verbatim>\<open>threading.Thread.join\<close>, which \<^verbatim>\<open>ExceptionThread.join\<close> calls first: it raises on a
  thread that was never started. The wait itself is not modelled: \<^verbatim>\<open>join\<close> is taken
  after the worker has ended (no timeout, or one that did not elapse).
\<close>

definition Thread_join :: "'a ExceptionThread_scheme \<Rightarrow> exn + unit" where
  "Thread_join self =
     (if \<not> started self
      then Inl (Exn RuntimeError ''cannot join thread before it is started'')
      else Inr ())"

definition ExceptionThread_join ::
  "(string \<Rightarrow> string) \<Rightarrow> (string \<Rightarrow> string \<Rightarrow> string) \<Rightarrow>
   'a ExceptionThread_scheme \<Rightarrow> exn + unit" where
  "ExceptionThread_join repr_str user_str self =
     (case Thread_join self of
        Inl e \<Rightarrow> Inl e
      | Inr _ \<Rightarrow>
          (case exc self of
             None \<Rightarrow> Inr ()
           | Some e \<Rightarrow>
               (let msg = join_msg repr_str (thread_name self) (py_str repr_str user_str e)
                in case construct (exn_type e) msg of
                     Inl raised \<Rightarrow>
                       if issubclass (exn_type raised) TypeError then Inl (Exn RuntimeError msg)
                       else Inl raised
                   | Inr error \<Rightarrow> Inl error)))"

definition Thread_start :: "'a ExceptionThread_scheme \<Rightarrow> exn + 'a ExceptionThread_scheme" where
  "Thread_start self =
     (if started self then Inl (Exn RuntimeError ''threads can only be started once'')
      else Inr (self\<lparr>started := True\<rparr>))"

text \<open>The thread of a service once \<^verbatim>\<open>start()\<close> has been called on it.\<close>

definition started_thread :: ExceptionThread where
  "started_thread = (ExceptionThread_init ''ServiceThread'')\<lparr>started := True\<rparr>"

section \<open>service_interface.py and service.py\<close>

datatype ServiceMode = ASYNC | SYNC

record Service = ExceptionThread +
  service_mode :: ServiceMode
  event_queue :: "PriorityQueue option"

definition is_async :: "Service \<Rightarrow> bool" where
  "is_async self = (service_mode self = ASYNC)"

definition Service_init :: "ServiceMode \<Rightarrow> Service" where
  "Service_init mode =
     \<lparr>thread_name = ''ServiceThread'', exc = None, started = False,
      service_mode = mode,
      event_queue = (if mode = ASYNC then Some PriorityQueue_init else None)\<rparr>"

definition Service_start :: "Service \<Rightarrow> exn + Service" where
  "Service_start self =
     (if \<not> is_async self then Inl (Exn RuntimeError [])
      else Thread_start self)"

text \<open>
  The world of a service: the event objects, the service, and the state of its
  collaborators (what \<^verbatim>\<open>execute\<close> changes). \<^verbatim>\<open>process_event\<close> is abstract in
  \<^verbatim>\<open>Service\<close>: a parameter. An attribute access on \<^verbatim>\<open>None\<close> raises
  \<^verbatim>\<open>AttributeError\<close>.
\<close>

record ('a, 'u) Service_world =
  objs :: "'a objs"
  svc :: Service
  collab :: 'u

definition none_has_no_attribute :: "string \<Rightarrow> exn" where
  "none_has_no_attribute a = Exn AttributeError (''NoneType object has no attribute '' @ a)"

definition Service_add_event ::
  "(nat \<Rightarrow> ('a, 'u) Service_world \<Rightarrow> exn + ('a, 'u) Service_world) \<Rightarrow>
   ('a, 'u) Service_world \<Rightarrow> nat \<Rightarrow> exn + ('a, 'u) Service_world" where
  "Service_add_event process_event w event =
     (if is_async (svc w) then
        (case event_queue (svc w) of
           None \<Rightarrow> Inl (none_has_no_attribute ''push'')
         | Some q \<Rightarrow>
             Inr (w\<lparr>svc := (svc w)\<lparr>event_queue := Some (PriorityQueue_push (objs w) q event)\<rparr>\<rparr>))
      else process_event event w)"

definition Service_cancel ::
  "(nat \<Rightarrow> 'a event_scheme \<Rightarrow> bool) \<Rightarrow> ('a, 'u) Service_world \<Rightarrow>
   exn + (nat list \<times> ('a, 'u) Service_world)" where
  "Service_cancel key w =
     (case event_queue (svc w) of
        None \<Rightarrow> Inl (none_has_no_attribute ''cancel'')
      | Some q \<Rightarrow>
          (let (le, evs') = PriorityQueue_cancel key (objs w) q in Inr (le, w\<lparr>objs := evs'\<rparr>)))"

definition Service_contains ::
  "(nat \<Rightarrow> 'a event_scheme \<Rightarrow> bool) \<Rightarrow> ('a, 'u) Service_world \<Rightarrow> exn + bool" where
  "Service_contains key w =
     (case event_queue (svc w) of
        None \<Rightarrow> Inl (none_has_no_attribute ''contains'')
      | Some q \<Rightarrow> Inr (PriorityQueue_contains key (objs w) q))"

definition Service_get ::
  "(nat \<Rightarrow> 'a event_scheme \<Rightarrow> bool) \<Rightarrow> ('a, 'u) Service_world \<Rightarrow> exn + nat list" where
  "Service_get key w =
     (case event_queue (svc w) of
        None \<Rightarrow> Inl (none_has_no_attribute ''get'')
      | Some q \<Rightarrow> Inr (PriorityQueue_get key (objs w) q))"

text \<open>
  The worker loop is not in \<^verbatim>\<open>Service\<close>; the repository's only one is
  \<^verbatim>\<open>DummyService.run_with_exception\<close> of test_service.py. This is one turn of its
  \<^verbatim>\<open>while True\<close>: \<^verbatim>\<open>pop\<close>, then \<^verbatim>\<open>process_event\<close>; an \<^verbatim>\<open>IndexError\<close> of either is
  caught (the worker sleeps and goes on), any other exception leaves the turn.
\<close>

definition DummyService_turn ::
  "(nat \<Rightarrow> ('a, 'u) Service_world \<Rightarrow> exn + ('a, 'u) Service_world) \<Rightarrow>
   ('a, 'u) Service_world \<Rightarrow> exn + ('a, 'u) Service_world" where
  "DummyService_turn process_event w =
     (case event_queue (svc w) of
        None \<Rightarrow> Inl (none_has_no_attribute ''pop'')
      | Some q \<Rightarrow>
          (let (res, q') = PriorityQueue_pop (objs w) q;
               w' = w\<lparr>svc := (svc w)\<lparr>event_queue := Some q'\<rparr>\<rparr>
           in case res of
                Inl e \<Rightarrow> if issubclass (exn_type e) IndexError then Inr w' else Inl e
              | Inr ev \<Rightarrow>
                  (case process_event ev w' of
                     Inl e \<Rightarrow> if issubclass (exn_type e) IndexError then Inr w' else Inl e
                   | Inr w'' \<Rightarrow> Inr w'')))"

text \<open>
  A \<^verbatim>\<open>process_event\<close> that records, in order, the events it is handed
  (\<^verbatim>\<open>DummyService.process_event\<close> calls \<^verbatim>\<open>event.execute\<close> on each).
\<close>

definition record_execute ::
  "nat \<Rightarrow> ('a, nat list) Service_world \<Rightarrow> exn + ('a, nat list) Service_world" where
  "record_execute event w = Inr (w\<lparr>collab := collab w @ [event]\<rparr>)"

text \<open>
  Worlds for concrete runs: a store in which only event 1 is cancelled; a synchronous
  service over the store of cancelled events; an asynchronous service whose queue holds
  events 0 and 1; and a \<^verbatim>\<open>process_event\<close> that raises when it is handed a cancelled
  event.
\<close>

definition one_cancelled :: "nat \<Rightarrow> event" where
  "one_cancelled r = (if r = 1 then AbstractEvent_cancel (two_events 1) else two_events r)"

definition sync_world :: "(unit, nat list) Service_world" where
  "sync_world = \<lparr>objs = all_cancelled, svc = Service_init SYNC, collab = []\<rparr>"

definition async_world :: "(unit, nat list) Service_world" where
  "async_world =
     \<lparr>objs = one_cancelled,
      svc = (Service_init ASYNC)
              \<lparr>event_queue :=
                 Some (PriorityQueue_push one_cancelled
                         (PriorityQueue_push one_cancelled PriorityQueue_init 0) 1)\<rparr>,
      collab = []\<rparr>"

definition guarded_execute ::
  "nat \<Rightarrow> ('a, nat list) Service_world \<Rightarrow> exn + ('a, nat list) Service_world" where
  "guarded_execute event w =
     (if cancelled (objs w event) then Inl (Exn RuntimeError ''a cancelled event was executed'')
      else record_execute event w)"

section \<open>communication_port.py\<close>

datatype CommunicationMode = FUNCTION_CALL_SEND | FUNCTION_CALL_RECV | TCP_SEND | TCP_RECV

text \<open>
  Attribute access on the enum class by name, \<^verbatim>\<open>CommunicationMode.X\<close>: the four members,
  and \<^verbatim>\<open>AttributeError\<close> for any other name.
\<close>

definition CommunicationMode_getattr :: "string \<Rightarrow> exn + CommunicationMode" where
  "CommunicationMode_getattr nm =
     (if nm = ''FUNCTION_CALL_SEND'' then Inr FUNCTION_CALL_SEND
      else if nm = ''FUNCTION_CALL_RECV'' then Inr FUNCTION_CALL_RECV
      else if nm = ''TCP_SEND'' then Inr TCP_SEND
      else if nm = ''TCP_RECV'' then Inr TCP_RECV
      else Inl (Exn AttributeError nm))"

text \<open>
  The Python values that travel through ports and registries. A port object is a
  reference into the port store. \<^verbatim>\<open>isinstance(v, CommunicationPort)\<close> is \<open>is_port v\<close>.
\<close>

datatype ServiceType = CLIENT | ALLOCATOR | SCHEDULER | ELECTRICAL_NETWORK

datatype DiscoveryError = SERVICE_UNKNOWN | MISSING_KEY_IN_REQUEST

datatype py_value =
    VNone
  | VStr string
  | VInt int
  | VPort nat
  | VServiceType ServiceType
  | VError DiscoveryError

fun is_port :: "py_value \<Rightarrow> bool" where
  "is_port (VPort r) = True"
| "is_port _ = False"

fun truthy :: "py_value \<Rightarrow> bool" where
  "truthy VNone = False"
| "truthy (VStr s) = (s \<noteq> [])"
| "truthy (VInt i) = (i \<noteq> 0)"
| "truthy _ = True"

text \<open>
  A receive callback takes the data and, when there is one, the respond function; both
  act on the state \<open>'u\<close> of the collaborators that own the callbacks. A callback that is
  called with an argument list it does not accept answers with its own \<^verbatim>\<open>TypeError\<close>.
\<close>

type_synonym ('d, 'u) respond = "'d \<Rightarrow> 'u \<Rightarrow> exn + 'u"

type_synonym ('d, 'u) callback = "'d \<Rightarrow> ('d, 'u) respond option \<Rightarrow> 'u \<Rightarrow> exn + 'u"

text \<open>
  The port's attributes. The socket and the listener task are objects of zmq and of the
  thread library: the model keeps the flag \<^verbatim>\<open>_listening\<close> that \<^verbatim>\<open>_start_sending\<close> sets
  (\<^verbatim>\<open>USE_PORT\<close> is the constant \<^verbatim>\<open>"zmq"\<close>), and takes what the socket does with a message
  as the parameter \<open>transport\<close> of \<^verbatim>\<open>send\<close>.
\<close>

record ('d, 'u) CommunicationPort =
  communication_mode :: CommunicationMode
  target_port :: py_value
  receive_callback :: "('d, 'u) callback option"
  receive_callback_tcp :: "('d, 'u) respond option"
  listening :: bool
  target_address :: "string option"
  port_name :: string
  recv :: bool

definition CommunicationPort_init ::
  "CommunicationMode \<Rightarrow> string option \<Rightarrow> ('d, 'u) CommunicationPort" where
  "CommunicationPort_init mode address =
     \<lparr>communication_mode = mode,
      target_port = VNone,
      receive_callback = None,
      receive_callback_tcp = None,
      listening = (mode = TCP_SEND),
      target_address = address,
      port_name = [],
      recv = False\<rparr>"

text \<open>The setter of \<^verbatim>\<open>target_port\<close>; for \<^verbatim>\<open>TCP_SEND\<close> it also asks the socket to connect.\<close>

definition set_target_port ::
  "py_value \<Rightarrow> ('d, 'u) CommunicationPort \<Rightarrow> ('d, 'u) CommunicationPort" where
  "set_target_port port self = self\<lparr>target_port := port\<rparr>"

definition CommunicationPort_is_ready :: "('d, 'u) CommunicationPort \<Rightarrow> bool" where
  "CommunicationPort_is_ready self =
     (let port_is_ref = is_port (target_port self);
          ref_ready = (port_is_ref \<and> FUNCTION_CALL_SEND = communication_mode self);
          tcp_ready = (TCP_SEND = communication_mode self \<and> listening self);
          res = (ref_ready \<or> tcp_ready)
      in res)"

definition call_callback ::
  "('d, 'u) callback option \<Rightarrow> 'd \<Rightarrow> ('d, 'u) respond option \<Rightarrow> 'u \<Rightarrow> exn + 'u" where
  "call_callback cb data respond_function u =
     (case cb of
        None \<Rightarrow> Inl (Exn TypeError ''NoneType object is not callable'')
      | Some f \<Rightarrow> f data respond_function u)"

definition CommunicationPort_receive ::
  "('d, 'u) CommunicationPort \<Rightarrow> 'd \<Rightarrow> ('d, 'u) respond option \<Rightarrow> 'u \<Rightarrow> exn + 'u" where
  "CommunicationPort_receive self data respond_function u =
     (case respond_function of
        Some rf \<Rightarrow> call_callback (receive_callback self) data (Some rf) u
      | None \<Rightarrow>
          (case (if communication_mode self = TCP_SEND
                 then call_callback (receive_callback self) data None u
                 else Inr u) of
             Inl e \<Rightarrow> Inl e
           | Inr u1 \<Rightarrow>
               if communication_mode self = FUNCTION_CALL_RECV
                  \<or> communication_mode self = FUNCTION_CALL_SEND
               then call_callback (receive_callback self) data None u1
               else Inr u1))"

definition not_ready :: "string \<Rightarrow> exn" where
  "not_ready nm = Exn RuntimeError (nm @ '': communication ports are not ready'')"

definition CommunicationPort_send ::
  "(('d, 'u) CommunicationPort \<Rightarrow> 'd \<Rightarrow> 'u \<Rightarrow> exn + 'u) \<Rightarrow>
   (nat \<Rightarrow> ('d, 'u) CommunicationPort) \<Rightarrow>
   ('d, 'u) CommunicationPort \<Rightarrow> 'd \<Rightarrow> 'u \<Rightarrow> exn + 'u" where
  "CommunicationPort_send transport ports self data u =
     (if \<not> CommunicationPort_is_ready self then Inl (not_ready (port_name self))
      else if communication_mode self = FUNCTION_CALL_SEND then
        (case target_port self of
           VPort b \<Rightarrow>
             CommunicationPort_receive (ports b) data
               (Some (\<lambda>d. CommunicationPort_receive self d None)) u
         | _ \<Rightarrow> Inl (Exn AttributeError ''receive''))
      else if communication_mode self = TCP_SEND then transport self data u
      else Inl (Exn AttributeError
                  ''communicationMode needs to be FUNCTION_CALL_SEND or TCP_SEND''))"

text \<open>
  The callbacks of test_communication_port.py: the collaborator keeps the last data
  each side saw. \<^verbatim>\<open>callback_request\<close> answers with a fixed response when it is given a
  respond function; \<^verbatim>\<open>callback_response\<close> takes the data alone.
\<close>

record 'd test_state =
  data_a :: "'d option"
  data_b :: "'d option"

definition callback_response :: "('d, 'd test_state) callback" where
  "callback_response data respond_function u =
     (case respond_function of
        None \<Rightarrow> Inr (u\<lparr>data_a := Some data\<rparr>)
      | Some rf \<Rightarrow> Inl (Exn TypeError ''unexpected keyword argument respond_function''))"

definition callback_request :: "'d \<Rightarrow> ('d, 'd test_state) callback" where
  "callback_request response data respond_function u =
     (let u1 = u\<lparr>data_b := Some data\<rparr>
      in case respond_function of
           None \<Rightarrow> Inl (Exn TypeError ''missing argument respond_function'')
         | Some rf \<Rightarrow> rf response u1)"

section \<open>discovery.py\<close>

text \<open>
  A \<^verbatim>\<open>dict\<close> with string keys is an association list in insertion order, read with
  \<open>map_of\<close>; \<^verbatim>\<open>k in d.keys()\<close> is \<open>has_key d k\<close>.
\<close>

type_synonym dict = "(string \<times> py_value) list"

definition has_key :: "dict \<Rightarrow> string \<Rightarrow> bool" where
  "has_key d k = (map_of d k \<noteq> None)"

text \<open>
  The two ports of \<^verbatim>\<open>test_simple_direct_call\<close>: \<open>port_a\<close> sends and targets the port at
  reference 1, \<open>port_b\<close> receives and answers \<^verbatim>\<open>{"y": 2}\<close>. No socket is involved.
\<close>

definition no_transport :: "('d, 'u) CommunicationPort \<Rightarrow> 'd \<Rightarrow> 'u \<Rightarrow> exn + 'u" where
  "no_transport self data u = Inl (Exn RuntimeError ''no socket in this run'')"

definition port_a :: "(dict, dict test_state) CommunicationPort" where
  "port_a =
     (set_target_port (VPort 1) (CommunicationPort_init FUNCTION_CALL_SEND None))
       \<lparr>port_name := ''port_a'', receive_callback := Some callback_response\<rparr>"

definition port_b :: "(dict, dict test_state) CommunicationPort" where
  "port_b =
     (CommunicationPort_init FUNCTION_CALL_RECV None)
       \<lparr>port_name := ''port_b'',
        receive_callback := Some (callback_request [(''y'', VInt 2)])\<rparr>"

definition test_ports :: "nat \<Rightarrow> (dict, dict test_state) CommunicationPort" where
  "test_ports r = (if r = 1 then port_b else port_a)"

definition make_service_data ::
  "py_value \<Rightarrow> py_value \<Rightarrow> py_value \<Rightarrow> py_value \<Rightarrow> exn + dict" where
  "make_service_data service_type service_reference service_tcp_port service_id =
     (if \<not> truthy service_type then Inl (Exn ValueError ''service_type must be set'')
      else if truthy service_tcp_port \<and> truthy service_reference then
        Inl (Exn ValueError
               ''do not use service_tcp_port and service_reference at the same time'')
      else
        Inr ([(''service_type'', service_type)]
             @ (if truthy service_reference
                then [(''service_reference'', service_reference)]
                else [(''service_tcp_port'', service_tcp_port)])
             @ (if truthy service_id then [(''service_id'', service_id)] else [])))"

text \<open>
  \<^verbatim>\<open>pydash.find(collection, {"service_type": v})\<close>, a library call: the first element of
  the collection whose \<^verbatim>\<open>"service_type"\<close> entry is there and equals \<open>v\<close>, or \<^verbatim>\<open>None\<close>.
\<close>

definition matches_type :: "py_value \<Rightarrow> dict \<Rightarrow> bool" where
  "matches_type v entry = (map_of entry ''service_type'' = Some v)"

definition pydash_find :: "dict list \<Rightarrow> py_value \<Rightarrow> dict option" where
  "pydash_find collection v = find (matches_type v) collection"

text \<open>
  \<^verbatim>\<open>DiscoveryServer.receive\<close>; \<open>services_data\<close> is \<^verbatim>\<open>self._data\<close>. \<^verbatim>\<open>not res\<close> holds
  for \<^verbatim>\<open>None\<close> and for an empty \<^verbatim>\<open>dict\<close>.
\<close>

definition DiscoveryServer_receive ::
  "dict list \<Rightarrow> dict \<Rightarrow> (dict, 'u) respond \<Rightarrow> 'u \<Rightarrow> exn + 'u" where
  "DiscoveryServer_receive services_data data respond_function u =
     (case map_of data ''service_type'' of
        None \<Rightarrow> respond_function [(''error'', VError MISSING_KEY_IN_REQUEST)] u
      | Some v \<Rightarrow>
          (case pydash_find services_data v of
             None \<Rightarrow> respond_function [(''error'', VError SERVICE_UNKNOWN)] u
           | Some res \<Rightarrow>
               if res = [] then respond_function [(''error'', VError SERVICE_UNKNOWN)] u
               else respond_function res u))"

text \<open>
  The registry of test_discovery.py: a service with an address, a service with a port
  reference, and the allocator with a port reference (here also with an id).
\<close>

definition service_tcp_info :: dict where
  "service_tcp_info =
     [(''service_type'', VStr ''servicetcp''), (''tcp_port'', VStr ''tcp://localhost:8888'')]"

definition service_direct_info :: dict where
  "service_direct_info =
     [(''service_type'', VStr ''servicedirect''), (''service_reference'', VPort 2)]"

definition allocator_info :: dict where
  "allocator_info =
     [(''service_type'', VServiceType ALLOCATOR), (''service_reference'', VPort 3),
      (''service_id'', VInt 7)]"

definition test_registry :: "dict list" where
  "test_registry = [service_tcp_info, service_direct_info, allocator_info]"

text \<open>A respond function that only records the replies it is given, in order.\<close>

definition record_reply :: "(dict, dict list) respond" where
  "record_reply reply log = Inr (log @ [reply])"

text \<open>
  \<^verbatim>\<open>DiscoveryDelegate\<close>: \<^verbatim>\<open>_ready\<close> and \<^verbatim>\<open>_resdata\<close>. The delegate is part of the state
  its callback acts on, so that state is a record that extends it.
\<close>

record DiscoveryDelegate =
  ready :: bool
  resdata :: "dict option"

definition discovery_handle_response :: "(dict, 'x DiscoveryDelegate_scheme) callback" where
  "discovery_handle_response data respond_function u =
     (case respond_function of
        None \<Rightarrow> Inr (u\<lparr>resdata := Some data, ready := True\<rparr>)
      | Some rf \<Rightarrow> Inl (Exn TypeError ''unexpected keyword argument respond_function''))"

text \<open>
  \<^verbatim>\<open>connect_to_service\<close>. The names \<^verbatim>\<open>FUNCTION_CALL\<close> and \<^verbatim>\<open>TCP\<close> are looked up on the
  enum class where the source writes them. No other thread sets \<^verbatim>\<open>_ready\<close> here, so the
  polling loop either is skipped or never ends: \<open>None\<close> is the call that does not return.
  In the error branch \<^verbatim>\<open>resport\<close> is still \<^verbatim>\<open>None\<close> when its callback is assigned.
\<close>

definition new_port ::
  "string \<Rightarrow> py_value \<Rightarrow> (dict, 'u) callback \<Rightarrow> exn + (dict, 'u) CommunicationPort" where
  "new_port mode_name target cb =
     (case CommunicationMode_getattr mode_name of
        Inl e \<Rightarrow> Inl e
      | Inr mode \<Rightarrow>
          Inr ((set_target_port target (CommunicationPort_init mode None))
                 \<lparr>receive_callback := Some cb\<rparr>))"

definition interpret_reply ::
  "dict \<Rightarrow> (dict, 'u) callback \<Rightarrow> exn + (dict, 'u) CommunicationPort" where
  "interpret_reply rd service_handle_response =
     (if has_key rd ''service_reference'' then
        (case map_of rd ''service_reference'' of
           Some v \<Rightarrow> new_port ''FUNCTION_CALL'' v service_handle_response
         | None \<Rightarrow> Inl (Exn AttributeError ''service_reference''))
      else if has_key rd ''tcp_port'' then
        (case map_of rd ''tcp_port'' of
           Some v \<Rightarrow> new_port ''TCP'' v service_handle_response
         | None \<Rightarrow> Inl (Exn AttributeError ''tcp_port''))
      else if has_key rd ''error'' then Inl (none_has_no_attribute ''receive_callback'')
      else Inl (Exn ValueError ''discovery service answer not not make any sens''))"

definition DiscoveryDelegate_connect_to_service ::
  "((dict, 'x DiscoveryDelegate_scheme) CommunicationPort \<Rightarrow> dict \<Rightarrow>
      'x DiscoveryDelegate_scheme \<Rightarrow> exn + 'x DiscoveryDelegate_scheme) \<Rightarrow>
   (nat \<Rightarrow> (dict, 'x DiscoveryDelegate_scheme) CommunicationPort) \<Rightarrow>
   py_value \<Rightarrow> (dict, 'x DiscoveryDelegate_scheme) callback \<Rightarrow> py_value \<Rightarrow>
   'x DiscoveryDelegate_scheme \<Rightarrow>
   (exn + (dict, 'x DiscoveryDelegate_scheme) CommunicationPort \<times> 'x DiscoveryDelegate_scheme) option" where
  "DiscoveryDelegate_connect_to_service transport ports service_type service_handle_response
       discovery_port_target u =
     (case CommunicationMode_getattr
             (if is_port discovery_port_target then ''FUNCTION_CALL'' else ''TCP'') of
        Inl e \<Rightarrow> Some (Inl e)
      | Inr discovery_port_mode \<Rightarrow>
          (let discovery_port =
                 (set_target_port discovery_port_target
                    ((CommunicationPort_init discovery_port_mode None)
                       \<lparr>port_name := ''DiscoveryDelegate_connect_port''\<rparr>))
                   \<lparr>receive_callback := Some discovery_handle_response\<rparr>
           in case CommunicationPort_send transport ports discovery_port
                     [(''service_type'', service_type)] u of
                Inl e \<Rightarrow> Some (Inl e)
              | Inr u1 \<Rightarrow>
                  if \<not> ready u1 then None
                  else
                    (case resdata u1 of
                       None \<Rightarrow> Some (Inl (none_has_no_attribute ''keys''))
                     | Some rd \<Rightarrow>
                         (case interpret_reply rd service_handle_response of
                            Inl e \<Rightarrow> Some (Inl e)
                          | Inr resport \<Rightarrow> Some (Inr (resport, u1))))))"

section \<open>heapq keeps the heap invariant\<close>


















lemma heappop_empty:
  "heappop lt [] = Inl (Exn IndexError ''pop from empty list'')"
  by (simp add: heappop_def)


section \<open>The queue: what a pop returns\<close>

lemma event_lt_key:
  "event_lt evs = (\<lambda>a b. date_time (evs a) < date_time (evs b))"
  by (simp add: event_lt_def AbstractEvent_lt_def fun_eq_iff)











section \<open>The queue: cancelling\<close>

lemma cancel_again: "cancelled e \<Longrightarrow> AbstractEvent_cancel e = e"
  by (simp add: AbstractEvent_cancel_def)

lemma cancel_loop_settled:
  "\<forall>e \<in> set es. key e (evs e) \<longrightarrow> cancelled (evs e) \<Longrightarrow>
     cancel_loop key es evs le = (le @ filter (\<lambda>e. key e (evs e)) es, evs)"
proof (induction es arbitrary: le)
  case Nil
  then show ?case by simp
next
  case (Cons e es)
  show ?case
  proof (cases "key e (evs e)")
    case True
    with Cons.prems have "cancelled (evs e)" by simp
    then have "evs(e := AbstractEvent_cancel (evs e)) = evs"
      by (simp add: cancel_again)
    then show ?thesis using True Cons by simp
  next
    case False
    then show ?thesis using Cons by simp
  qed
qed

lemma cancel_loop_settles:
  "cancel_loop key es evs le = (le', evs') \<Longrightarrow>
   \<forall>e \<in> D. key e (evs e) \<longrightarrow> cancelled (evs e) \<Longrightarrow>
   \<forall>e \<in> D \<union> set es. key e (evs' e) \<longrightarrow> cancelled (evs' e)"
proof (induction es arbitrary: evs le D)
  case Nil
  then show ?case by simp
next
  case (Cons e es)
  show ?case
  proof (cases "key e (evs e)")
    case True
    let ?evs = "evs(e := AbstractEvent_cancel (evs e))"
    from True Cons.prems(1) have run: "cancel_loop key es ?evs (le @ [e]) = (le', evs')" by simp
    have "\<forall>x \<in> insert e D. key x (?evs x) \<longrightarrow> cancelled (?evs x)"
      using Cons.prems(2) by (simp add: AbstractEvent_cancel_def)
    from Cons.IH[OF run this] show ?thesis by simp
  next
    case False
    with Cons.prems(1) have run: "cancel_loop key es evs le = (le', evs')" by simp
    have "\<forall>x \<in> insert e D. key x (evs x) \<longrightarrow> cancelled (evs x)"
      using Cons.prems(2) False by simp
    from Cons.IH[OF run this] show ?thesis by simp
  qed
qed

lemma cancel_loop_flag_blind:
  assumes blind: "\<forall>r e. key r (AbstractEvent_cancel e) = key r e"
  shows "cancel_loop key es evs le = (le', evs') \<Longrightarrow>
         le' = le @ filter (\<lambda>e. key e (evs e)) es \<and> (\<forall>x. key x (evs' x) = key x (evs x))"
proof (induction es arbitrary: evs le)
  case Nil
  then show ?case by simp
next
  case (Cons e es)
  show ?case
  proof (cases "key e (evs e)")
    case True
    let ?evs = "evs(e := AbstractEvent_cancel (evs e))"
    from True Cons.prems have run: "cancel_loop key es ?evs (le @ [e]) = (le', evs')" by simp
    have same: "key x (?evs x) = key x (evs x)" for x using blind by simp
    from Cons.IH[OF run] show ?thesis using True same by simp
  next
    case False
    with Cons.prems have run: "cancel_loop key es evs le = (le', evs')" by simp
    from Cons.IH[OF run] show ?thesis using False by simp
  qed
qed

section \<open>Claims\<close>

subsection \<open>C1: what a sequence of pushes, cancels and pops returns\<close>




subsection \<open>C7: cancelling twice\<close>

text \<open>
  Claim C7, as the code has it. Call \<^verbatim>\<open>cancel(key)\<close> twice in succession on any queue. The
  second call cancels nothing new: it leaves every event as the first call left it. It
  returns the events of the queue that satisfy \<open>key\<close> (the loop appends every event the
  key holds of, cancelled before or not), and for a key that does not read the cancelled
  flag that is the list the first call returned. It is empty only when the key holds of
  no event of the queue.
\<close>

theorem PriorityQueue_cancel_twice:
  "snd (PriorityQueue_cancel key (snd (PriorityQueue_cancel key evs q)) q)
     = snd (PriorityQueue_cancel key evs q) \<and>
   fst (PriorityQueue_cancel key (snd (PriorityQueue_cancel key evs q)) q)
     = filter (\<lambda>e. key e (snd (PriorityQueue_cancel key evs q) e)) (pq q) \<and>
   ((\<forall>r e. key r (AbstractEvent_cancel e) = key r e) \<longrightarrow>
      fst (PriorityQueue_cancel key (snd (PriorityQueue_cancel key evs q)) q)
        = fst (PriorityQueue_cancel key evs q))"
proof -
  obtain le1 evs1 where c1: "cancel_loop key (pq q) evs [] = (le1, evs1)"
    by (cases "cancel_loop key (pq q) evs []") auto
  have settled: "\<forall>e \<in> set (pq q). key e (evs1 e) \<longrightarrow> cancelled (evs1 e)"
    using cancel_loop_settles[OF c1, of "{}"] by simp
  have c2: "cancel_loop key (pq q) evs1 [] = (filter (\<lambda>e. key e (evs1 e)) (pq q), evs1)"
    using cancel_loop_settled[where es="pq q" and key=key and evs=evs1 and le="[]"] settled
    by simp
  have blind: "le1 = filter (\<lambda>e. key e (evs1 e)) (pq q)"
    if "\<forall>r e. key r (AbstractEvent_cancel e) = key r e"
    using cancel_loop_flag_blind[OF that c1] by simp
  show ?thesis using c1 c2 blind by (simp add: PriorityQueue_cancel_def)
qed

theorem PriorityQueue_cancel_twice_witness:
  "snd (PriorityQueue_cancel any_event (snd (PriorityQueue_cancel any_event two_events one_event_queue))
          one_event_queue)
     = snd (PriorityQueue_cancel any_event two_events one_event_queue) \<and>
   fst (PriorityQueue_cancel any_event two_events one_event_queue) = [0] \<and>
   fst (PriorityQueue_cancel any_event (snd (PriorityQueue_cancel any_event two_events one_event_queue))
          one_event_queue) = [0]"
proof -
  have q: "pq one_event_queue = [0]" by code_simp
  have first: "fst (PriorityQueue_cancel any_event two_events one_event_queue) = [0]"
    by (simp add: PriorityQueue_cancel_def q any_event_def)
  have blind: "\<forall>r e. any_event r (AbstractEvent_cancel e) = any_event r e"
    by (simp add: any_event_def)
  note T = PriorityQueue_cancel_twice[of any_event two_events one_event_queue]
  have a: "snd (PriorityQueue_cancel any_event
                  (snd (PriorityQueue_cancel any_event two_events one_event_queue)) one_event_queue)
     = snd (PriorityQueue_cancel any_event two_events one_event_queue)"
    using T by blast
  have c: "fst (PriorityQueue_cancel any_event
                  (snd (PriorityQueue_cancel any_event two_events one_event_queue)) one_event_queue)
     = fst (PriorityQueue_cancel any_event two_events one_event_queue)"
    using T blind by blast
  show ?thesis using a c first by simp
qed

text \<open>
  The claim as stated fails: on the queue that holds event 0, with a key that holds of
  every event, the second call returns event 0 again.
\<close>

theorem PriorityQueue_cancel_twice_counterexample:
  "fst (PriorityQueue_cancel any_event
          (snd (PriorityQueue_cancel any_event two_events one_event_queue)) one_event_queue)
     \<noteq> []"
proof -
  have q: "pq one_event_queue = [0]" by code_simp
  show ?thesis by (simp add: PriorityQueue_cancel_def q any_event_def)
qed

subsection \<open>C10: events compare by their date_time\<close>

text \<open>
  Claim C10. \<^verbatim>\<open>a == b\<close> holds exactly when the two \<open>date_time\<close>s are equal, and
  \<^verbatim>\<open>a < b\<close> exactly when the \<open>date_time\<close> of \<open>a\<close> is earlier. So two events with the same
  \<open>date_time\<close> compare equal whatever their cancelled flags and the attributes their
  subclasses add; and the order the queue keeps depends on the \<open>date_time\<close>s only: over
  two stores that agree on every \<open>date_time\<close>, \<^verbatim>\<open>push\<close> and \<^verbatim>\<open>heappop\<close> compute the same
  lists.
\<close>

theorem AbstractEvent_compare_by_date_time:
  "(AbstractEvent_eq a b \<longleftrightarrow> date_time a = date_time b) \<and>
   (AbstractEvent_lt a b \<longleftrightarrow> date_time a < date_time b) \<and>
   AbstractEvent_eq \<lparr>date_time = t, cancelled = c1, \<dots> = m1\<rparr>
                    \<lparr>date_time = t, cancelled = c2, \<dots> = m2\<rparr> \<and>
   ((\<forall>r. date_time (evs1 r) = date_time (evs2 r)) \<longrightarrow>
      PriorityQueue_push evs1 q e = PriorityQueue_push evs2 q e \<and>
      heappop (event_lt evs1) h = heappop (event_lt evs2) h)"
proof -
  have "event_lt evs1 = event_lt evs2" if "\<forall>r. date_time (evs1 r) = date_time (evs2 r)"
    using that by (simp add: event_lt_key)
  then show ?thesis
    by (simp add: AbstractEvent_eq_def AbstractEvent_lt_def PriorityQueue_push_def)
qed

theorem AbstractEvent_compare_by_date_time_witness:
  "AbstractEvent_eq (two_events 1) (all_cancelled 2) \<and>
   \<not> AbstractEvent_eq (two_events 0) (all_cancelled 1) \<and>
   AbstractEvent_lt (all_cancelled 1) (two_events 0) \<and>
   PriorityQueue_push two_events one_event_queue 1
     = PriorityQueue_push all_cancelled one_event_queue 1 \<and>
   heappop (event_lt two_events) [1, 0] = heappop (event_lt all_cancelled) [1, 0]"
proof -
  have same: "\<forall>r. date_time (two_events r) = date_time (all_cancelled r)"
    by (simp add: all_cancelled_def AbstractEvent_cancel_def)
  have eq: "AbstractEvent_eq (two_events 1) (all_cancelled 2)"
    using AbstractEvent_compare_by_date_time[of "two_events 1" "all_cancelled 2", THEN conjunct1]
    by (simp add: two_events_def all_cancelled_def AbstractEvent_cancel_def AbstractEvent_init_def)
  have neq: "\<not> AbstractEvent_eq (two_events 0) (all_cancelled 1)"
    using AbstractEvent_compare_by_date_time[of "two_events 0" "all_cancelled 1", THEN conjunct1]
    by (simp add: two_events_def all_cancelled_def AbstractEvent_cancel_def AbstractEvent_init_def)
  have lt: "AbstractEvent_lt (all_cancelled 1) (two_events 0)"
    using AbstractEvent_compare_by_date_time
      [of "all_cancelled 1" "two_events 0", THEN conjunct2, THEN conjunct1]
    by (simp add: two_events_def all_cancelled_def AbstractEvent_cancel_def AbstractEvent_init_def)
  have order: "PriorityQueue_push two_events one_event_queue 1
       = PriorityQueue_push all_cancelled one_event_queue 1 \<and>
     heappop (event_lt two_events) [1, 0] = heappop (event_lt all_cancelled) [1, 0]"
    by (rule mp[OF AbstractEvent_compare_by_date_time
          [of "two_events 0" "two_events 0" _ _ _ _ _ two_events all_cancelled one_event_queue 1
              "[1, 0]", THEN conjunct2, THEN conjunct2, THEN conjunct2] same])
  show ?thesis using eq neq lt order by simp
qed

subsection \<open>C2: the local round trip\<close>

text \<open>
  Claim C2. Let \<open>A\<close> be a local-send port whose target is the port \<open>B\<close> at reference \<open>b\<close>,
  with callbacks \<open>cbA\<close> and \<open>cbB\<close> registered. Then \<^verbatim>\<open>A.send(payload)\<close> is the call of
  \<open>cbB\<close> on exactly \<open>payload\<close> together with a respond function, and it returns what that
  call returns, so the call happens before \<^verbatim>\<open>send\<close> returns; and the respond function
  applied to a response is the call of \<open>cbA\<close> on exactly that response. The witness runs
  the round trip of the test: \<open>B\<close> sees \<^verbatim>\<open>{"x": 1}\<close> and \<open>A\<close> sees \<^verbatim>\<open>{"y": 2}\<close>.
\<close>

theorem local_round_trip:
  assumes "communication_mode A = FUNCTION_CALL_SEND"
    and "target_port A = VPort b"
    and "receive_callback (ports b) = Some cbB"
    and "receive_callback A = Some cbA"
  shows "CommunicationPort_send transport ports A payload u
           = cbB payload (Some (\<lambda>d. CommunicationPort_receive A d None)) u \<and>
         CommunicationPort_receive A response None u' = cbA response None u'"
  using assms
  by (simp add: CommunicationPort_send_def CommunicationPort_is_ready_def
      CommunicationPort_receive_def call_callback_def)

theorem local_round_trip_witness:
  "communication_mode port_a = FUNCTION_CALL_SEND \<and>
   target_port port_a = VPort 1 \<and>
   communication_mode (test_ports 1) = FUNCTION_CALL_RECV \<and>
   receive_callback (test_ports 1) = Some (callback_request [(''y'', VInt 2)]) \<and>
   receive_callback port_a = Some callback_response \<and>
   CommunicationPort_send no_transport test_ports port_a [(''x'', VInt 1)]
       \<lparr>data_a = None, data_b = None\<rparr>
     = Inr \<lparr>data_a = Some [(''y'', VInt 2)], data_b = Some [(''x'', VInt 1)]\<rparr>"
proof -
  have a: "communication_mode port_a = FUNCTION_CALL_SEND" "target_port port_a = VPort 1"
    "receive_callback port_a = Some callback_response"
    by (simp_all add: port_a_def set_target_port_def CommunicationPort_init_def)
  have b: "receive_callback (test_ports 1) = Some (callback_request [(''y'', VInt 2)])"
    "communication_mode (test_ports 1) = FUNCTION_CALL_RECV"
    by (simp_all add: test_ports_def port_b_def CommunicationPort_init_def)
  note T = local_round_trip
    [where A = port_a and b = 1 and ports = test_ports
       and cbB = "callback_request [(''y'', VInt 2)]" and cbA = callback_response,
     OF a(1) a(2) b(1) a(3)]
  have "CommunicationPort_send no_transport test_ports port_a [(''x'', VInt 1)]
       \<lparr>data_a = None, data_b = None\<rparr>
     = Inr \<lparr>data_a = Some [(''y'', VInt 2)], data_b = Some [(''x'', VInt 1)]\<rparr>"
    by (simp add: T[THEN conjunct1] T[THEN conjunct2] callback_request_def callback_response_def)
  then show ?thesis using a b by simp
qed

subsection \<open>C4: what the discovery server replies\<close>

text \<open>
  Claim C4. A request without the key \<^verbatim>\<open>"service_type"\<close> is answered with the reply
  \<^verbatim>\<open>{"error": MISSING_KEY_IN_REQUEST}\<close>; a request whose type no registry entry matches,
  with \<^verbatim>\<open>{"error": SERVICE_UNKNOWN}\<close>; any other request, with the first matching entry itself, so
  with whatever locator and id the entry carries. Whatever the request, the server calls
  the respond function exactly once and raises nothing of its own: with a respond function
  that records, one reply is recorded.
\<close>

lemma find_first_match:
  "\<forall>e \<in> set pre. \<not> P e \<Longrightarrow> P entry \<Longrightarrow> find P (pre @ entry # post) = Some entry"
  by (induction pre) simp_all

lemma matches_type_nonempty: "matches_type v entry \<Longrightarrow> entry \<noteq> []"
  by (auto simp: matches_type_def)

lemma pydash_find_Some: "pydash_find services_data v = Some res \<Longrightarrow> res \<noteq> []"
  unfolding pydash_find_def
  by (auto simp: find_Some_iff dest: matches_type_nonempty)

theorem DiscoveryServer_receive_reply:
  "(map_of data ''service_type'' = None \<longrightarrow>
      DiscoveryServer_receive services_data data respond u
        = respond [(''error'', VError MISSING_KEY_IN_REQUEST)] u) \<and>
   (map_of data ''service_type'' = Some v \<and> (\<forall>e \<in> set services_data. \<not> matches_type v e) \<longrightarrow>
      DiscoveryServer_receive services_data data respond u
        = respond [(''error'', VError SERVICE_UNKNOWN)] u) \<and>
   (map_of data ''service_type'' = Some v \<and> services_data = pre @ entry # post \<and>
      (\<forall>e \<in> set pre. \<not> matches_type v e) \<and> matches_type v entry \<longrightarrow>
      DiscoveryServer_receive services_data data respond u = respond entry u) \<and>
   (\<exists>reply. DiscoveryServer_receive services_data data record_reply log = Inr (log @ [reply]))"
proof (intro conjI impI)
  assume "map_of data ''service_type'' = None"
  then show "DiscoveryServer_receive services_data data respond u
        = respond [(''error'', VError MISSING_KEY_IN_REQUEST)] u"
    by (simp add: DiscoveryServer_receive_def)
next
  assume a: "map_of data ''service_type'' = Some v \<and> (\<forall>e \<in> set services_data. \<not> matches_type v e)"
  then have "pydash_find services_data v = None"
    by (simp add: pydash_find_def find_None_iff)
  with a show "DiscoveryServer_receive services_data data respond u
        = respond [(''error'', VError SERVICE_UNKNOWN)] u"
    by (simp add: DiscoveryServer_receive_def)
next
  assume a: "map_of data ''service_type'' = Some v \<and> services_data = pre @ entry # post \<and>
      (\<forall>e \<in> set pre. \<not> matches_type v e) \<and> matches_type v entry"
  then have "pydash_find services_data v = Some entry"
    by (simp add: pydash_find_def find_first_match)
  moreover have "entry \<noteq> []" using a matches_type_nonempty by blast
  ultimately show "DiscoveryServer_receive services_data data respond u = respond entry u"
    using a by (simp add: DiscoveryServer_receive_def)
next
  show "\<exists>reply. DiscoveryServer_receive services_data data record_reply log = Inr (log @ [reply])"
    by (auto simp: DiscoveryServer_receive_def record_reply_def
        split: option.splits dest: pydash_find_Some)
qed

theorem DiscoveryServer_receive_reply_witness:
  "DiscoveryServer_receive test_registry [(''test'', VStr ''ok'')] record_reply []
     = Inr [[(''error'', VError MISSING_KEY_IN_REQUEST)]] \<and>
   DiscoveryServer_receive test_registry [(''service_type'', VStr ''toto'')] record_reply []
     = Inr [[(''error'', VError SERVICE_UNKNOWN)]] \<and>
   DiscoveryServer_receive test_registry [(''service_type'', VServiceType ALLOCATOR)]
       record_reply []
     = Inr [allocator_info] \<and>
   map_of allocator_info ''service_reference'' = Some (VPort 3) \<and>
   map_of allocator_info ''service_id'' = Some (VInt 7)"
proof -
  note T = DiscoveryServer_receive_reply
  have 1: "DiscoveryServer_receive test_registry [(''test'', VStr ''ok'')] record_reply []
     = record_reply [(''error'', VError MISSING_KEY_IN_REQUEST)] []"
    by (rule T[THEN conjunct1, THEN mp]) simp
  have 2: "DiscoveryServer_receive test_registry [(''service_type'', VStr ''toto'')] record_reply []
     = record_reply [(''error'', VError SERVICE_UNKNOWN)] []"
    by (rule T[where v = "VStr ''toto''", THEN conjunct2, THEN conjunct1, THEN mp])
      (simp add: test_registry_def matches_type_def service_tcp_info_def
        service_direct_info_def allocator_info_def)
  have 3: "DiscoveryServer_receive test_registry [(''service_type'', VServiceType ALLOCATOR)]
       record_reply []
     = record_reply allocator_info []"
    by (rule T[where v = "VServiceType ALLOCATOR" and pre = "[service_tcp_info, service_direct_info]"
          and post = "[]", THEN conjunct2, THEN conjunct2, THEN conjunct1, THEN mp])
      (simp add: test_registry_def matches_type_def service_tcp_info_def
        service_direct_info_def allocator_info_def)
  show ?thesis
    using 1 2 3 by (simp add: record_reply_def allocator_info_def)
qed

subsection \<open>C3: a failure of the worker reaches join\<close>

text \<open>
  Claim C3, as the code has it. Let the body of the worker raise \<open>e\<close>. If \<open>e\<close> is a
  \<^verbatim>\<open>NotImplementedError\<close> (or of a class derived from it), \<^verbatim>\<open>run\<close> raises it again inside
  the worker at once and captures nothing, so a \<^verbatim>\<open>join()\<close> on the started thread, with
  nothing captured before, returns normally. Otherwise \<^verbatim>\<open>run\<close> returns normally with \<open>e\<close>
  captured in \<^verbatim>\<open>exc\<close>. A \<^verbatim>\<open>join()\<close> after that on a thread that was never started raises the
  \<^verbatim>\<open>RuntimeError\<close> of \<^verbatim>\<open>Thread.join\<close>. On the started thread it always raises: an
  exception of the class of \<open>e\<close> built from the message when that class can be built from
  one message, a \<^verbatim>\<open>RuntimeError\<close> built from the message when building it raises a
  \<^verbatim>\<open>TypeError\<close>, and what the constructor raised when it raises anything else. The message
  quotes the text of \<open>e\<close>. It is the argument of the exception raised; the text that
  exception renders is the message itself for \<^verbatim>\<open>RuntimeError\<close> and the other built-in
  classes, the \<^verbatim>\<open>repr\<close> of the message for \<^verbatim>\<open>KeyError\<close>, and what its \<^verbatim>\<open>__str__\<close> makes
  of the message for a user class.
\<close>

lemma construct_Inr: "construct t msg = Inr x \<Longrightarrow> x = Exn t msg"
  by (induction t msg rule: construct.induct) auto

lemma join_msg_quotes: "\<exists>pre post. join_msg repr_str nm s = pre @ s @ post"
proof -
  have "join_msg repr_str nm s =
      (''Thread '' @ repr_str nm @ '' threw an exception: '' @ [CHR 0x27]) @ s @ [CHR 0x27]"
    by (simp add: join_msg_def)
  then show ?thesis by blast
qed

lemma py_str_cases:
  "py_str repr_str user_str (Exn t a) =
     (case t of KeyError \<Rightarrow> repr_str a | UserException n base c \<Rightarrow> user_str n a | _ \<Rightarrow> a)"
  by (cases t) simp_all

theorem ExceptionThread_failure_propagates:
  "run_with_exception self = (Some e, self') \<longrightarrow>
     (if issubclass (exn_type e) NotImplementedError
      then ExceptionThread_run run_with_exception self = (Some e, self') \<and>
           (started self' \<and> exc self' = None \<longrightarrow>
              ExceptionThread_join repr_str user_str
                (snd (ExceptionThread_run run_with_exception self)) = Inr ())
      else ExceptionThread_run run_with_exception self = (None, self'\<lparr>exc := Some e\<rparr>) \<and>
           (\<not> started self' \<longrightarrow>
              ExceptionThread_join repr_str user_str
                (snd (ExceptionThread_run run_with_exception self))
                = Inl (Exn RuntimeError ''cannot join thread before it is started'')) \<and>
           (started self' \<longrightarrow>
              (\<exists>err. ExceptionThread_join repr_str user_str
                       (snd (ExceptionThread_run run_with_exception self)) = Inl err) \<and>
              (\<forall>x. construct (exn_type e)
                     (join_msg repr_str (thread_name self') (py_str repr_str user_str e)) = Inr x \<longrightarrow>
                   ExceptionThread_join repr_str user_str
                     (snd (ExceptionThread_run run_with_exception self))
                     = Inl (Exn (exn_type e)
                              (join_msg repr_str (thread_name self') (py_str repr_str user_str e)))) \<and>
              (\<forall>raised. construct (exn_type e)
                     (join_msg repr_str (thread_name self') (py_str repr_str user_str e)) = Inl raised \<longrightarrow>
                   ExceptionThread_join repr_str user_str
                     (snd (ExceptionThread_run run_with_exception self))
                     = Inl (if issubclass (exn_type raised) TypeError
                            then Exn RuntimeError
                                   (join_msg repr_str (thread_name self') (py_str repr_str user_str e))
                            else raised))) \<and>
           (\<exists>pre post. join_msg repr_str (thread_name self') (py_str repr_str user_str e)
                         = pre @ py_str repr_str user_str e @ post) \<and>
           py_str repr_str user_str
               (Exn RuntimeError (join_msg repr_str (thread_name self') (py_str repr_str user_str e)))
             = join_msg repr_str (thread_name self') (py_str repr_str user_str e) \<and>
           py_str repr_str user_str
               (Exn (exn_type e) (join_msg repr_str (thread_name self') (py_str repr_str user_str e)))
             = (case exn_type e of
                  KeyError \<Rightarrow>
                    repr_str (join_msg repr_str (thread_name self') (py_str repr_str user_str e))
                | UserException n base c \<Rightarrow>
                    user_str n (join_msg repr_str (thread_name self') (py_str repr_str user_str e))
                | _ \<Rightarrow> join_msg repr_str (thread_name self') (py_str repr_str user_str e)))"
proof (intro impI)
  assume body: "run_with_exception self = (Some e, self')"
  let ?msg = "join_msg repr_str (thread_name self') (py_str repr_str user_str e)"
  let ?run = "ExceptionThread_run run_with_exception self"
  let ?join = "ExceptionThread_join repr_str user_str (snd ?run)"
  show "if issubclass (exn_type e) NotImplementedError
      then ?run = (Some e, self') \<and>
           (started self' \<and> exc self' = None \<longrightarrow> ?join = Inr ())
      else ?run = (None, self'\<lparr>exc := Some e\<rparr>) \<and>
           (\<not> started self' \<longrightarrow>
              ?join = Inl (Exn RuntimeError ''cannot join thread before it is started'')) \<and>
           (started self' \<longrightarrow>
              (\<exists>err. ?join = Inl err) \<and>
              (\<forall>x. construct (exn_type e) ?msg = Inr x \<longrightarrow> ?join = Inl (Exn (exn_type e) ?msg)) \<and>
              (\<forall>raised. construct (exn_type e) ?msg = Inl raised \<longrightarrow>
                   ?join = Inl (if issubclass (exn_type raised) TypeError
                                then Exn RuntimeError ?msg else raised))) \<and>
           (\<exists>pre post. ?msg = pre @ py_str repr_str user_str e @ post) \<and>
           py_str repr_str user_str (Exn RuntimeError ?msg) = ?msg \<and>
           py_str repr_str user_str (Exn (exn_type e) ?msg)
             = (case exn_type e of
                  KeyError \<Rightarrow> repr_str ?msg
                | UserException n base c \<Rightarrow> user_str n ?msg
                | _ \<Rightarrow> ?msg)"
  proof (cases "issubclass (exn_type e) NotImplementedError")
    case True
    then have run: "?run = (Some e, self')"
      using body by (simp add: ExceptionThread_run_def)
    have "ExceptionThread_join repr_str user_str self' = Inr ()"
      if "started self'" "exc self' = None"
      using that by (simp add: ExceptionThread_join_def Thread_join_def)
    then show ?thesis using True run by simp
  next
    case False
    have run: "?run = (None, self'\<lparr>exc := Some e\<rparr>)"
      using False body by (simp add: ExceptionThread_run_def)
    have n: "ExceptionThread_join repr_str user_str (self'\<lparr>exc := Some e\<rparr>)
               = Inl (Exn RuntimeError ''cannot join thread before it is started'')"
      if "\<not> started self'"
      using that by (simp add: ExceptionThread_join_def Thread_join_def)
    have j1: "ExceptionThread_join repr_str user_str (self'\<lparr>exc := Some e\<rparr>)
                = Inl (Exn (exn_type e) ?msg)"
      if "started self'" "construct (exn_type e) ?msg = Inr x" for x
      using that construct_Inr[OF that(2)]
      by (simp add: ExceptionThread_join_def Thread_join_def)
    have j2: "ExceptionThread_join repr_str user_str (self'\<lparr>exc := Some e\<rparr>)
                = Inl (if issubclass (exn_type raised) TypeError then Exn RuntimeError ?msg else raised)"
      if "started self'" "construct (exn_type e) ?msg = Inl raised" for raised
      using that by (simp add: ExceptionThread_join_def Thread_join_def)
    have j0: "\<exists>err. ExceptionThread_join repr_str user_str (self'\<lparr>exc := Some e\<rparr>) = Inl err"
      if "started self'"
      using j1[OF that] j2[OF that] by (cases "construct (exn_type e) ?msg") blast+
    have q: "\<exists>pre post. ?msg = pre @ py_str repr_str user_str e @ post"
      by (rule join_msg_quotes)
    have r: "py_str repr_str user_str (Exn RuntimeError ?msg) = ?msg" by simp
    have c: "py_str repr_str user_str (Exn (exn_type e) ?msg)
             = (case exn_type e of
                  KeyError \<Rightarrow> repr_str ?msg
                | UserException n base c \<Rightarrow> user_str n ?msg
                | _ \<Rightarrow> ?msg)"
      by (rule py_str_cases)
    show ?thesis
      unfolding run using False n j0 j1 j2 q r c by simp
  qed
qed

theorem ExceptionThread_failure_propagates_witness:
  "raising (Exn ValueError ''boom'') started_thread
     = (Some (Exn ValueError ''boom''), started_thread) \<and>
   \<not> issubclass ValueError NotImplementedError \<and>
   started started_thread \<and>
   fst (ExceptionThread_run (raising (Exn ValueError ''boom'')) started_thread) = None \<and>
   ExceptionThread_join py_repr str_of_argument
     (snd (ExceptionThread_run (raising (Exn ValueError ''boom'')) started_thread))
     = Inl (Exn ValueError
              (''Thread '' @ [CHR 0x27] @ ''ServiceThread'' @ [CHR 0x27] @
               '' threw an exception: '' @ [CHR 0x27] @ ''boom'' @ [CHR 0x27])) \<and>
   ExceptionThread_join py_repr str_of_argument
     (snd (ExceptionThread_run (raising (Exn ValueError ''boom''))
             (ExceptionThread_init ''ServiceThread'')))
     = Inl (Exn RuntimeError ''cannot join thread before it is started'')"
proof -
  have body: "raising (Exn ValueError ''boom'') t = (Some (Exn ValueError ''boom''), t)"
    for t :: ExceptionThread
    by (simp add: raising_def)
  have st: "started started_thread" "\<not> started (ExceptionThread_init ''ServiceThread'')"
    by (simp_all add: started_thread_def ExceptionThread_init_def)
  have nm: "thread_name started_thread = ''ServiceThread''"
    by (simp add: started_thread_def ExceptionThread_init_def)
  note T = ExceptionThread_failure_propagates
    [where run_with_exception = "raising (Exn ValueError ''boom'')"
       and e = "Exn ValueError ''boom''" and repr_str = py_repr and user_str = str_of_argument,
     THEN mp, OF body]
  have run: "ExceptionThread_run (raising (Exn ValueError ''boom'')) started_thread
      = (None, started_thread\<lparr>exc := Some (Exn ValueError ''boom'')\<rparr>)"
    using T[of started_thread] by simp
  have j: "ExceptionThread_join py_repr str_of_argument
     (snd (ExceptionThread_run (raising (Exn ValueError ''boom'')) started_thread))
     = Inl (Exn ValueError (join_msg py_repr ''ServiceThread'' ''boom''))"
    using T[of started_thread] st(1) nm run by simp
  have run0: "ExceptionThread_run (raising (Exn ValueError ''boom''))
        (ExceptionThread_init ''ServiceThread'')
      = (None, (ExceptionThread_init ''ServiceThread'')\<lparr>exc := Some (Exn ValueError ''boom'')\<rparr>)"
    using T[of "ExceptionThread_init ''ServiceThread''"] by simp
  have k: "ExceptionThread_join py_repr str_of_argument
     (snd (ExceptionThread_run (raising (Exn ValueError ''boom''))
             (ExceptionThread_init ''ServiceThread'')))
     = Inl (Exn RuntimeError ''cannot join thread before it is started'')"
    using T[of "ExceptionThread_init ''ServiceThread''"] st(2) run0 by simp
  show ?thesis using body[of started_thread] st(1) run j k
    by (simp add: join_msg_def py_repr_def)
qed

text \<open>
  The claim as stated fails for \<^verbatim>\<open>NotImplementedError\<close>: with the body of the base class on
  a started thread, \<^verbatim>\<open>run\<close> lets the exception out in the worker, \<^verbatim>\<open>exc\<close> stays \<^verbatim>\<open>None\<close>
  and \<^verbatim>\<open>join()\<close> returns normally.
\<close>

theorem ExceptionThread_NotImplementedError_counterexample:
  "Thread_start (ExceptionThread_init ''ServiceThread'') = Inr started_thread \<and>
   ExceptionThread_run run_with_exception_abstract started_thread
     = (Some (Exn NotImplementedError []), started_thread) \<and>
   ExceptionThread_join py_repr str_of_argument
     (snd (ExceptionThread_run run_with_exception_abstract started_thread))
     = Inr ()"
  by (simp add: ExceptionThread_run_def run_with_exception_abstract_def ExceptionThread_join_def
      Thread_join_def Thread_start_def started_thread_def ExceptionThread_init_def)

subsection \<open>C8: a cancelled event and the dispatch paths\<close>

text \<open>
  What the paths through the queue do: \<^verbatim>\<open>pop()\<close> never returns an event whose cancelled
  flag is set, so a worker turn, which takes its event from \<^verbatim>\<open>pop()\<close>, never hands a
  cancelled event to \<^verbatim>\<open>process_event\<close>: the turn is the same for any two
  \<^verbatim>\<open>process_event\<close> that agree on the events that are not cancelled. \<^verbatim>\<open>add_event\<close> of an
  asynchronous service calls no \<^verbatim>\<open>process_event\<close> at all, and \<^verbatim>\<open>cancel()\<close> twice leaves
  the event as \<^verbatim>\<open>cancel()\<close> once does.
\<close>

lemma pop_loop_not_cancelled:
  "pop_loop evs event heap = (Inr r, heap') \<Longrightarrow> \<not> cancelled (evs r)"
proof (induction evs event heap arbitrary: r heap' rule: pop_loop.induct)
  case (1 evs event heap)
  show ?case
  proof (cases "cancelled (evs event)")
    case False
    with "1.prems" show ?thesis by (subst (asm) pop_loop.simps) simp
  next
    case True
    show ?thesis
    proof (cases "heappop (event_lt evs) heap")
      case (Inl e)
      with True "1.prems" show ?thesis by (subst (asm) pop_loop.simps) simp
    next
      case (Inr p)
      obtain event' h' where p: "p = (event', h')" by (cases p) auto
      with Inr True "1.prems" have "pop_loop evs event' h' = (Inr r, heap')"
        by (subst (asm) pop_loop.simps) simp
      from "1.IH"[OF True Inr[unfolded p] refl this] show ?thesis .
    qed
  qed
qed

lemma pop_not_cancelled:
  "PriorityQueue_pop evs q = (Inr r, q') \<Longrightarrow> \<not> cancelled (evs r)"
  by (auto simp: PriorityQueue_pop_def split: sum.splits prod.splits dest: pop_loop_not_cancelled)

lemma turn_skips_cancelled:
  assumes "\<forall>ev w'. \<not> cancelled (objs w' ev) \<longrightarrow> p ev w' = p' ev w'"
  shows "DummyService_turn p w = DummyService_turn p' w"
proof (cases "event_queue (svc w)")
  case None
  then show ?thesis by (simp add: DummyService_turn_def)
next
  case (Some q)
  obtain res q' where pop: "PriorityQueue_pop (objs w) q = (res, q')"
    by (cases "PriorityQueue_pop (objs w) q") auto
  show ?thesis
  proof (cases res)
    case (Inl e)
    then show ?thesis using Some pop by (simp add: DummyService_turn_def)
  next
    case (Inr ev)
    let ?w = "w\<lparr>svc := (svc w)\<lparr>event_queue := Some q'\<rparr>\<rparr>"
    have "\<not> cancelled (objs ?w ev)" using pop_not_cancelled[of "objs w" q ev q'] pop Inr by simp
    then have "p ev ?w = p' ev ?w" using assms by blast
    then show ?thesis using Some pop Inr by (simp add: DummyService_turn_def)
  qed
qed

lemma async_add_event_only_enqueues:
  "is_async (svc w) \<Longrightarrow> Service_add_event p w ev = Service_add_event p' w ev"
  by (simp add: Service_add_event_def)

lemma sync_add_event_is_process_event:
  "\<not> is_async (svc w) \<Longrightarrow> Service_add_event p w ev = p ev w"
  by (simp add: Service_add_event_def)

lemma cancel_idempotent:
  "AbstractEvent_cancel (AbstractEvent_cancel e) = AbstractEvent_cancel e"
  "cancelled (AbstractEvent_cancel e)"
  by (simp_all add: AbstractEvent_cancel_def)

text \<open>
  Claim C8, on the code. The synchronous path has no such check: \<^verbatim>\<open>add_event\<close> of a
  synchronous service is the call of \<^verbatim>\<open>process_event\<close> on the event it is given, whatever
  its flag. Event 0 is cancelled, and \<^verbatim>\<open>add_event\<close> of the synchronous service hands it to
  \<^verbatim>\<open>process_event\<close>, which records it. On the asynchronous service whose queue holds the
  cancelled event 1 at its head, the worker turn skips it and hands over event 0 only:
  the turn with a \<^verbatim>\<open>process_event\<close> that raises on a cancelled event is the same turn.
\<close>

theorem sync_add_event_runs_cancelled_event:
  "cancelled (objs sync_world 0) \<and>
   Service_add_event record_execute sync_world 0 = Inr (sync_world\<lparr>collab := [0]\<rparr>) \<and>
   Service_add_event guarded_execute sync_world 0
     = Inl (Exn RuntimeError ''a cancelled event was executed'') \<and>
   cancelled (objs async_world 1) \<and>
   DummyService_turn guarded_execute async_world = DummyService_turn record_execute async_world"
proof -
  have sync: "cancelled (objs sync_world 0)"
    "Service_add_event record_execute sync_world 0 = Inr (sync_world\<lparr>collab := [0]\<rparr>)"
    "Service_add_event guarded_execute sync_world 0
       = Inl (Exn RuntimeError ''a cancelled event was executed'')"
    by (simp_all add: sync_world_def all_cancelled_def AbstractEvent_cancel_def
        Service_add_event_def Service_init_def is_async_def record_execute_def
        guarded_execute_def)
  have flag: "cancelled (objs async_world 1)"
    by (simp add: async_world_def one_cancelled_def AbstractEvent_cancel_def)
  have same: "\<forall>ev w'. \<not> cancelled (objs w' ev) \<longrightarrow>
      guarded_execute ev (w' :: (unit, nat list) Service_world) = record_execute ev w'"
    by (simp add: guarded_execute_def)
  have turn: "DummyService_turn guarded_execute async_world
      = DummyService_turn record_execute async_world"
    by (rule turn_skips_cancelled[OF same])
  show ?thesis using sync flag turn by simp
qed

subsection \<open>C9: a synchronous service has no queue\<close>

text \<open>
  Claim C9, on the code. \<^verbatim>\<open>start()\<close> of a synchronous service raises \<^verbatim>\<open>RuntimeError\<close>.
  \<^verbatim>\<open>cancel\<close>, \<^verbatim>\<open>contains\<close> and \<^verbatim>\<open>get\<close> have no such guard: each reads an attribute of
  the queue, which is \<^verbatim>\<open>None\<close>, and what it raises is the \<^verbatim>\<open>AttributeError\<close> of that
  access.
\<close>

theorem sync_service_failures:
  "Service_start (Service_init SYNC) = Inl (Exn RuntimeError []) \<and>
   Service_cancel key \<lparr>objs = evs, svc = Service_init SYNC, collab = c\<rparr>
     = Inl (Exn AttributeError ''NoneType object has no attribute cancel'') \<and>
   Service_contains key \<lparr>objs = evs, svc = Service_init SYNC, collab = c\<rparr>
     = Inl (Exn AttributeError ''NoneType object has no attribute contains'') \<and>
   Service_get key \<lparr>objs = evs, svc = Service_init SYNC, collab = c\<rparr>
     = Inl (Exn AttributeError ''NoneType object has no attribute get'')"
  by (simp add: Service_start_def Service_init_def is_async_def Service_cancel_def
      Service_contains_def Service_get_def none_has_no_attribute_def)

subsection \<open>C6: readiness of a port\<close>

text \<open>
  Claim C6, on the code. A port that is not ready raises the not-ready \<^verbatim>\<open>RuntimeError\<close> on
  \<^verbatim>\<open>send\<close>. A network-send port is ready from its construction, with no target set:
  \<^verbatim>\<open>_start_sending\<close> sets \<^verbatim>\<open>_listening\<close>, the only thing \<^verbatim>\<open>is_ready\<close> reads for that mode.
  So \<^verbatim>\<open>send\<close> on such a port does not raise the not-ready error: it hands the data to the
  socket.
\<close>

lemma send_not_ready:
  "\<not> CommunicationPort_is_ready self \<Longrightarrow>
     CommunicationPort_send transport ports self data u = Inl (not_ready (port_name self))"
  by (simp add: CommunicationPort_send_def)

theorem tcp_send_ready_without_target:
  "CommunicationPort_is_ready (CommunicationPort_init TCP_SEND None) \<and>
   target_port (CommunicationPort_init TCP_SEND None) = VNone \<and>
   CommunicationPort_send transport ports (CommunicationPort_init TCP_SEND None) data u
     = transport (CommunicationPort_init TCP_SEND None) data u \<and>
   CommunicationPort_send no_transport ports (CommunicationPort_init TCP_SEND None) data u
     \<noteq> Inl (not_ready (port_name (CommunicationPort_init TCP_SEND None)))"
  by (simp add: CommunicationPort_is_ready_def CommunicationPort_init_def
      CommunicationPort_send_def no_transport_def not_ready_def)

subsection \<open>C5: connecting to a discovered service\<close>

text \<open>
  Claim C5, on the code. \<^verbatim>\<open>connect_to_service\<close> first reads \<^verbatim>\<open>CommunicationMode.FUNCTION_CALL\<close>
  or \<^verbatim>\<open>CommunicationMode.TCP\<close>; the enum has neither member, so every call raises
  \<^verbatim>\<open>AttributeError\<close> before any port is made. The interpretation of a reply, taken alone,
  never yields a port either, and the key it reads for an address, \<^verbatim>\<open>"tcp_port"\<close>, is not
  the key \<^verbatim>\<open>"service_tcp_port"\<close> that \<^verbatim>\<open>make_service_data\<close> writes.
\<close>

lemma interpret_reply_never_returns_port:
  "\<exists>e. interpret_reply rd service_handle_response = Inl e"
  by (auto simp: interpret_reply_def new_port_def CommunicationMode_getattr_def has_key_def
      split: option.splits)

lemma make_service_data_tcp_key:
  "make_service_data (VServiceType ALLOCATOR) VNone (VStr ''tcp://localhost:8888'') VNone = Inr rd
     \<Longrightarrow> \<not> has_key rd ''tcp_port'' \<and> has_key rd ''service_tcp_port''"
  by (auto simp: make_service_data_def has_key_def)

theorem connect_to_service_raises:
  "DiscoveryDelegate_connect_to_service transport ports service_type service_handle_response
       discovery_port_target u
     = Some (Inl (Exn AttributeError
                    (if is_port discovery_port_target then ''FUNCTION_CALL'' else ''TCP'')))"
  by (simp add: DiscoveryDelegate_connect_to_service_def CommunicationMode_getattr_def)

end
